theory Spec2Isabelle
  imports Complex_Main "HOL-Library.Multiset"
begin

section \<open>Guild activity reporter: the model of \<open>script.py\<close>\<close>

text \<open>
  The script is a sequential batch job. Its effects are modelled as a trace of events
  (HTTP requests, sleeps, the file written, the upload), threaded through every function
  that performs one; what the outside world answers is a parameter of the model (the
  HTTP oracles, the clock, the environment and the ISO parser of the standard library).
  Every \<open>raise\<close> is a value \<open>Inl e\<close> of a sum type. Console output (\<open>print\<close>) is not
  part of the model.

  The JSON documents are decoded with the types of the two endpoints (names and
  timestamps are strings, playtime and contribution are numbers); a field that the code
  reads with \<open>.get\<close> may be missing or null.
  A number is its exact value, a rational: the text of \<open>.1f\<close> is the correctly rounded
  decimal of that value, and \<open>total_seconds\<close> is the exact quotient (the double nearest
  to the quotient has the same integer part for spans below \<open>2^33\<close> seconds). Writing the
  report is taken to succeed.
\<close>

subsection \<open>Configuration constants\<close>

definition DELAY_MIN :: rat where "DELAY_MIN = 1 / 2"
definition DELAY_MAX :: rat where "DELAY_MAX = 2"
definition MAX_RETRIES :: nat where "MAX_RETRIES = 5"
definition RETRY_DELAY :: nat where "RETRY_DELAY = 5"


definition API_PLAYER_URL :: "string \<Rightarrow> string" where
  \<comment> \<open>\<open>API_PLAYER_URL.format(uuid)\<close>\<close>
  "API_PLAYER_URL uuid = ''https://api.wynncraft.com/v3/player/'' @ uuid"

subsection \<open>Decimal text of integers\<close>

definition digit_char :: "nat \<Rightarrow> char" where
  "digit_char d =
     (if d = 0 then CHR ''0'' else if d = 1 then CHR ''1'' else if d = 2 then CHR ''2''
      else if d = 3 then CHR ''3'' else if d = 4 then CHR ''4'' else if d = 5 then CHR ''5''
      else if d = 6 then CHR ''6'' else if d = 7 then CHR ''7'' else if d = 8 then CHR ''8''
      else CHR ''9'')"

fun str_nat :: "nat \<Rightarrow> string" where
  "str_nat n = (if n < 10 then [digit_char n] else str_nat (n div 10) @ [digit_char (n mod 10)])"

declare str_nat.simps [simp del]

definition str_int :: "int \<Rightarrow> string" where
  "str_int i = (if i < 0 then CHR ''-'' # str_nat (nat (- i)) else str_nat (nat i))"

subsection \<open>Exceptions, events and HTTP responses\<close>

datatype exn =
    RequestException string
  | HTTPError string
  | Exception string
  | JSONDecodeError string
  | KeyError string
  | AttributeError string
  | TypeError string

fun str_exn :: "exn \<Rightarrow> string" where
  "str_exn (RequestException m) = m"
| "str_exn (HTTPError m) = m"
| "str_exn (Exception m) = m"
| "str_exn (JSONDecodeError m) = m"
| "str_exn (KeyError k) = [CHR 0x27] @ k @ [CHR 0x27]"
| "str_exn (AttributeError m) = m"
| "str_exn (TypeError m) = m"

datatype event =
    Get string
  | Sleep nat
  | Sleep_uniform rat rat
  | Write_file string string
  | Post string string string string

type_synonym trace = "event list"

record 'd response =
  status_code :: nat
  reason :: string
  url :: string
  json :: "string + 'd"

text \<open>
  \<open>requests.get(url, timeout=10)\<close>: the answer to the request issued when the trace has
  \<open>t\<close> events is \<open>get t url\<close>, either a \<open>RequestException\<close> (its message) or a response.
\<close>

type_synonym 'd getter = "nat \<Rightarrow> string \<Rightarrow> string + 'd response"

definition raise_for_status :: "'d response \<Rightarrow> exn + unit" where
  "raise_for_status resp =
     (if 400 \<le> status_code resp \<and> status_code resp < 500
      then Inl (HTTPError (str_nat (status_code resp) @ '' Client Error: '' @ reason resp
                            @ '' for url: '' @ url resp))
      else if 500 \<le> status_code resp \<and> status_code resp < 600
      then Inl (HTTPError (str_nat (status_code resp) @ '' Server Error: '' @ reason resp
                            @ '' for url: '' @ url resp))
      else Inr ())"

subsection \<open>\<open>safe_request\<close>\<close>

fun attempts :: "'d getter \<Rightarrow> string \<Rightarrow> nat list \<Rightarrow> trace \<Rightarrow> (exn + 'd response) \<times> trace" where
  "attempts get u [] s =
     (Inl (Exception (''Failed to fetch after '' @ str_nat MAX_RETRIES @ '' attempts: '' @ u)), s)"
| "attempts get u (attempt # rest) s =
     (case get (length s) u of
        Inl msg \<Rightarrow> attempts get u rest (s @ [Get u, Sleep RETRY_DELAY])
      | Inr resp \<Rightarrow>
          if status_code resp = 429
          then attempts get u rest (s @ [Get u, Sleep RETRY_DELAY])
          else (case raise_for_status resp of
                  Inl e \<Rightarrow> attempts get u rest (s @ [Get u, Sleep RETRY_DELAY])
                | Inr _ \<Rightarrow> (Inr resp, s @ [Get u])))"

definition safe_request :: "'d getter \<Rightarrow> string \<Rightarrow> trace \<Rightarrow> (exn + 'd response) \<times> trace" where
  "safe_request get u s = attempts get u [1 ..< MAX_RETRIES + 1] s"

text \<open>An attempt fails when the request raises, is answered 429, or \<open>raise_for_status\<close> raises.\<close>

definition attempt_fails :: "string + 'd response \<Rightarrow> bool" where
  "attempt_fails a =
     (case a of
        Inl msg \<Rightarrow> True
      | Inr resp \<Rightarrow> status_code resp = 429 \<or> 400 \<le> status_code resp \<and> status_code resp < 600)"

definition count_gets :: "trace \<Rightarrow> nat" where
  "count_gets s = length (filter (\<lambda>e. case e of Get _ \<Rightarrow> True | _ \<Rightarrow> False) s)"


subsection \<open>Documents of the two endpoints\<close>

text \<open>
  The guild document maps a rank name to a mapping from player name to member info; the
  key \<open>total\<close> holds a count instead. Mappings are association lists in the document's
  order, which is the order \<open>items()\<close> iterates in.

  A field that the code reads with \<open>.get\<close> is absent, null or a value. The value of a
  Python expression that may be \<open>None\<close> is an option.
\<close>

datatype 'a field = Absent | Null | Val 'a

definition dict_get :: "'a field \<Rightarrow> 'a option" where
  \<comment> \<open>\<open>d.get(key)\<close>\<close>
  "dict_get f = (case f of Absent \<Rightarrow> None | Null \<Rightarrow> None | Val v \<Rightarrow> Some v)"

definition dict_get_default :: "'a field \<Rightarrow> 'a \<Rightarrow> 'a option" where
  \<comment> \<open>\<open>d.get(key, default)\<close>: the default stands in for a missing key only\<close>
  "dict_get_default f d = (case f of Absent \<Rightarrow> Some d | Null \<Rightarrow> None | Val v \<Rightarrow> Some v)"

record member_info =
  i_uuid :: "string field"
  i_contributed :: "int field"
  i_joined :: "string field"

datatype rank_entry = Count int | Players "(string \<times> member_info) list"

record guild_doc =
  g_name :: "string option"
  g_members :: "(string \<times> rank_entry) list option"

record player_doc =
  d_username :: "string field"
  d_playtime :: "rat field"
  d_lastJoin :: "string field"

record member =
  uuid :: string
  guild_name :: string
  rank :: string
  contributed :: "int option"
  joined :: "string option"

subsection \<open>Instants and durations\<close>

text \<open>
  A \<open>datetime\<close> is its wall-clock reading in microseconds since 0001-01-01T00:00:00 and
  the offset of its \<open>tzinfo\<close> in microseconds (\<open>None\<close> for a naive value). A \<open>timedelta\<close>
  is normalised as in the standard library: \<open>0 \<le> seconds < 86400\<close> and
  \<open>0 \<le> microseconds < 1000000\<close>, with the sign carried by \<open>days\<close>.
\<close>

record datetime =
  wall_us :: int
  utcoffset :: "int option"

record timedelta =
  days :: int
  seconds :: int
  microseconds :: int

definition td_of_us :: "int \<Rightarrow> timedelta" where
  "td_of_us n =
     \<lparr>days = n div 86400000000,
      seconds = (n mod 86400000000) div 1000000,
      microseconds = n mod 1000000\<rparr>"

definition dt_sub :: "datetime \<Rightarrow> datetime \<Rightarrow> exn + timedelta" where
  \<comment> \<open>\<open>a - b\<close> on datetimes\<close>
  "dt_sub a b =
     (case (utcoffset a, utcoffset b) of
        (None, None) \<Rightarrow> Inr (td_of_us (wall_us a - wall_us b))
      | (Some oa, Some ob) \<Rightarrow> Inr (td_of_us ((wall_us a - oa) - (wall_us b - ob)))
      | _ \<Rightarrow> Inl (TypeError (''can'' @ [CHR 0x27]
                               @ ''t subtract offset-naive and offset-aware datetimes'')))"

definition total_seconds :: "timedelta \<Rightarrow> rat" where
  \<comment> \<open>the quotient is taken exactly; the rounding of the quotient to a double is not modelled\<close>
  "total_seconds d =
     of_int ((days d * 86400 + seconds d) * 1000000 + microseconds d) / 1000000"

definition int_of_float :: "rat \<Rightarrow> int" where
  \<comment> \<open>\<open>int(x)\<close>: truncation towards zero\<close>
  "int_of_float q = (if 0 \<le> q then \<lfloor>q\<rfloor> else \<lceil>q\<rceil>)"

datatype inact = Seconds int | Infinity

instantiation inact :: linorder
begin

fun less_eq_inact :: "inact \<Rightarrow> inact \<Rightarrow> bool" where
  "less_eq_inact (Seconds a) (Seconds b) = (a \<le> b)"
| "less_eq_inact (Seconds a) Infinity = True"
| "less_eq_inact Infinity (Seconds b) = False"
| "less_eq_inact Infinity Infinity = True"

definition less_inact :: "inact \<Rightarrow> inact \<Rightarrow> bool" where
  "less_inact x y = (x \<le> y \<and> \<not> y \<le> x)"

instance
proof
  fix x y z :: inact
  show "(x < y) = (x \<le> y \<and> \<not> y \<le> x)" by (simp add: less_inact_def)
  show "x \<le> x" by (cases x) simp_all
  show "x \<le> y \<Longrightarrow> y \<le> z \<Longrightarrow> x \<le> z" by (cases x; cases y; cases z) simp_all
  show "x \<le> y \<Longrightarrow> y \<le> x \<Longrightarrow> x = y" by (cases x; cases y) simp_all
  show "x \<le> y \<or> y \<le> x" by (cases x; cases y) auto
qed

end

subsection \<open>\<open>fetch_guild_members\<close>\<close>

fun players_loop :: "string \<Rightarrow> (string \<times> member_info) list \<Rightarrow> member list \<Rightarrow> member list" where
  "players_loop rk [] members = members"
| "players_loop rk ((name, info) # rest) members =
     (case dict_get (i_uuid info) of
        None \<Rightarrow> players_loop rk rest members
      | Some u \<Rightarrow>
          if u = [] then players_loop rk rest members
          else players_loop rk rest
                 (members @
                  [\<lparr>uuid = u, guild_name = name, rank = rk,
                    contributed = dict_get_default (i_contributed info) 0,
                    joined = dict_get_default (i_joined info) ''Unknown''\<rparr>]))"

fun ranks_loop :: "(string \<times> rank_entry) list \<Rightarrow> member list \<Rightarrow> exn + member list" where
  "ranks_loop [] members = Inr members"
| "ranks_loop ((rk, players) # rest) members =
     (if rk = ''total'' then ranks_loop rest members
      else (case players of
              Count n \<Rightarrow>
                Inl (AttributeError ([CHR 0x27] @ ''int'' @ [CHR 0x27] @ '' object has no attribute ''
                                     @ [CHR 0x27] @ ''items'' @ [CHR 0x27]))
            | Players ps \<Rightarrow> ranks_loop rest (players_loop rk ps members)))"

definition guild_members :: "guild_doc \<Rightarrow> exn + member list" where
  \<comment> \<open>lines 50 to 66, on the decoded document\<close>
  "guild_members data =
     (case g_members data of
        None \<Rightarrow> Inl (KeyError ''members'')
      | Some ms \<Rightarrow>
          (case ranks_loop ms [] of
             Inl e \<Rightarrow> Inl e
           | Inr members \<Rightarrow>
               (case g_name data of
                  None \<Rightarrow> Inl (KeyError ''name'')
                | Some n \<Rightarrow> Inr members)))"


subsection \<open>\<open>fetch_player_info\<close>\<close>

record info =
  current_name :: "string option"
  playtime :: "rat option"
  delta_str :: string
  last_join_dt :: "datetime option"
  inactivity_seconds :: inact

definition replace_Z :: "string \<Rightarrow> string" where
  \<comment> \<open>\<open>s.replace("Z", "+00:00")\<close>\<close>
  "replace_Z s = concat (map (\<lambda>c. if c = CHR ''Z'' then ''+00:00'' else [c]) s)"

definition player_activity ::
  "(string \<Rightarrow> datetime option) \<Rightarrow> int \<Rightarrow> string \<Rightarrow> player_doc \<Rightarrow> exn + info" where
  \<comment> \<open>lines 82 to 125; \<open>parse\<close> is \<open>datetime.fromisoformat\<close> (\<open>None\<close> when it raises) and
      \<open>now_us\<close> the reading of \<open>datetime.now(timezone.utc)\<close>\<close>
  "player_activity parse now_us uid data =
     (let username = dict_get_default (d_username data) uid;
          pt = dict_get_default (d_playtime data) 0
      in case dict_get (d_lastJoin data) of
           None \<Rightarrow>
             Inr \<lparr>current_name = username, playtime = pt, delta_str = ''Never joined'',
                  last_join_dt = None, inactivity_seconds = Infinity\<rparr>
         | Some last_join_str \<Rightarrow>
             if last_join_str = [] then
               Inr \<lparr>current_name = username, playtime = pt, delta_str = ''Never joined'',
                    last_join_dt = None, inactivity_seconds = Infinity\<rparr>
             else
               (case parse (replace_Z last_join_str) of
                  None \<Rightarrow>
                    Inr \<lparr>current_name = username, playtime = pt, delta_str = ''Invalid date'',
                         last_join_dt = None, inactivity_seconds = Infinity\<rparr>
                | Some dt \<Rightarrow>
                    (case dt_sub \<lparr>wall_us = now_us, utcoffset = Some 0\<rparr> dt of
                       Inl e \<Rightarrow> Inl e
                     | Inr delta \<Rightarrow>
                         Inr \<lparr>current_name = username, playtime = pt,
                              delta_str = str_int (days delta) @ ''d ''
                                          @ str_int (seconds delta div 3600) @ ''h ''
                                          @ str_int ((seconds delta mod 3600) div 60) @ ''m ago'',
                              last_join_dt = Some dt,
                              inactivity_seconds = Seconds (int_of_float (total_seconds delta))\<rparr>)))"

text \<open>What the world answers: the environment, the two endpoints, the webhook, the clocks
  and the ISO parser of the standard library.\<close>

record world =
  environ :: "string \<rightharpoonup> string"
  http_guild :: "guild_doc getter"
  http_player :: "player_doc getter"
  http_post :: "nat \<Rightarrow> string \<Rightarrow> string + unit response"
  utcnow_us :: "nat \<Rightarrow> int"
  strftime_now :: "nat \<Rightarrow> string"
  fromisoformat :: "string \<Rightarrow> datetime option"

definition fetch_player_info :: "world \<Rightarrow> string \<Rightarrow> trace \<Rightarrow> (exn + info) \<times> trace" where
  "fetch_player_info w uid s =
     (case safe_request (http_player w) (API_PLAYER_URL uid) s of
        (Inl e, s') \<Rightarrow> (Inl e, s')
      | (Inr resp, s') \<Rightarrow>
          (case json resp of
             Inl msg \<Rightarrow> (Inl (JSONDecodeError msg), s')
           | Inr data \<Rightarrow>
               (player_activity (fromisoformat w) (utcnow_us w (length s')) uid data, s')))"

subsection \<open>The per-member loop of \<open>main\<close>\<close>

text \<open>
  A result row is a dictionary: the merge \<open>{**m, **info}\<close> has every key, the placeholder
  of the \<open>except\<close> branch has six of them. A key that may be missing is an option
  (\<open>None\<close> when the dictionary has no such key) around its value.
\<close>

record row =
  row_uuid :: string
  row_guild_name :: string
  row_rank :: string
  row_contributed :: "int option option"
  row_joined :: "string option option"
  row_current_name :: "string option"
  row_playtime :: "rat option"
  row_delta_str :: string
  row_last_join_dt :: "datetime option option"
  row_inactivity_seconds :: "inact option"

definition merged :: "member \<Rightarrow> info \<Rightarrow> row" where
  \<comment> \<open>\<open>{**m, **info}\<close>\<close>
  "merged m i =
     \<lparr>row_uuid = uuid m, row_guild_name = guild_name m, row_rank = rank m,
      row_contributed = Some (contributed m), row_joined = Some (joined m),
      row_current_name = current_name i, row_playtime = playtime i,
      row_delta_str = delta_str i, row_last_join_dt = Some (last_join_dt i),
      row_inactivity_seconds = Some (inactivity_seconds i)\<rparr>"

definition placeholder :: "member \<Rightarrow> exn \<Rightarrow> row" where
  \<comment> \<open>lines 160 to 167\<close>
  "placeholder m e =
     \<lparr>row_uuid = uuid m, row_guild_name = guild_name m, row_rank = rank m,
      row_contributed = None, row_joined = None,
      row_current_name = Some ''Error'', row_playtime = Some 0,
      row_delta_str = ''Error: '' @ str_exn e, row_last_join_dt = None,
      row_inactivity_seconds = None\<rparr>"

fun member_loop :: "world \<Rightarrow> member list \<Rightarrow> row list \<Rightarrow> trace \<Rightarrow> row list \<times> trace" where
  "member_loop w [] results s = (results, s)"
| "member_loop w (m # ms) results s =
     (case fetch_player_info w (uuid m) s of
        (Inr i, s') \<Rightarrow>
          member_loop w ms (results @ [merged m i]) (s' @ [Sleep_uniform DELAY_MIN DELAY_MAX])
      | (Inl e, s') \<Rightarrow>
          member_loop w ms (results @ [placeholder m e]) (s' @ [Sleep_uniform DELAY_MIN DELAY_MAX]))"

subsection \<open>Sorting\<close>

definition sort_key_of :: "row \<Rightarrow> inact" where
  \<comment> \<open>\<open>lambda x: x.get("inactivity_seconds", 0)\<close>\<close>
  "sort_key_of r = (case row_inactivity_seconds r of None \<Rightarrow> Seconds 0 | Some v \<Rightarrow> v)"

definition sort_results :: "row list \<Rightarrow> row list" where
  \<comment> \<open>\<open>results.sort(key=..., reverse=True)\<close>: the list is reversed, sorted by the stable
      ascending sort and reversed again\<close>
  "sort_results results = rev (sort_key sort_key_of (rev results))"

subsection \<open>Rendering\<close>

definition ljust :: "nat \<Rightarrow> string \<Rightarrow> string" where
  \<comment> \<open>format specification \<open><n\<close>\<close>
  "ljust n s = s @ replicate (n - length s) CHR '' ''"

definition rjust :: "nat \<Rightarrow> string \<Rightarrow> string" where
  \<comment> \<open>format specification \<open>>n\<close>\<close>
  "rjust n s = replicate (n - length s) CHR '' '' @ s"

definition round_half_even :: "rat \<Rightarrow> int" where
  "round_half_even q =
     (let f = \<lfloor>q\<rfloor>; r = q - of_int f
      in if r < 1 / 2 then f else if 1 / 2 < r then f + 1 else if even f then f else f + 1)"

definition fixed1 :: "rat \<Rightarrow> string" where
  \<comment> \<open>format specification \<open>.1f\<close>, on the exact value of the number\<close>
  "fixed1 x =
     (let n = round_half_even (\<bar>x\<bar> * 10)
      in (if x < 0 then ''-'' else []) @ str_nat (nat (n div 10)) @ ''.''
         @ [digit_char (nat (n mod 10))])"

definition NoneType_format :: exn where
  \<comment> \<open>what formatting \<open>None\<close> with a non-empty format specification raises\<close>
  "NoneType_format = TypeError ''unsupported format string passed to NoneType.__format__''"

definition render_row :: "row \<Rightarrow> exn + string" where
  \<comment> \<open>the f-string of line 184; its fields are formatted from left to right\<close>
  "render_row r =
     (case row_current_name r of
        None \<Rightarrow> Inl NoneType_format
      | Some name \<Rightarrow>
          (case row_playtime r of
             None \<Rightarrow> Inl NoneType_format
           | Some pt \<Rightarrow>
               Inr (ljust 20 (row_guild_name r) @ '' | '' @ ljust 20 name @ '' | ''
                    @ ljust 10 (row_rank r) @ '' | '' @ rjust 6 (fixed1 pt) @ ''h | ''
                    @ row_delta_str r @ [CHR 0x0A])))"




subsection \<open>\<open>send_webhook_file\<close>\<close>




subsection \<open>\<open>main\<close> and the process\<close>




subsection \<open>Concrete answers of the endpoints\<close>

definition ex_get_429 :: "player_doc getter" where
  "ex_get_429 t u =
     Inr \<lparr>status_code = 429, reason = ''Too Many Requests'', url = u, json = Inl ''Expecting value''\<rparr>"

definition ex_get_304 :: "player_doc getter" where
  "ex_get_304 t u =
     Inr \<lparr>status_code = 304, reason = ''Not Modified'', url = u, json = Inl ''Expecting value''\<rparr>"

definition ex_get_200 :: "player_doc getter" where
  "ex_get_200 t u =
     Inr \<lparr>status_code = 200, reason = ''OK'', url = u,
          json = Inr \<lparr>d_username = Val ''FooBar'', d_playtime = Val (25 / 2), d_lastJoin = Absent\<rparr>\<rparr>"

subsection \<open>The roster in the words of the specification\<close>

text \<open>
  The roster the specification describes, to be compared with \<open>guild_members\<close>: every
  entry under a rank other than the aggregate key \<open>total\<close>, in document order; an entry
  without a player identifier gives no Member, any other gives one Member, with the
  contribution count defaulting to 0 and the join date to \<open>Unknown\<close> when the field is
  absent (a null is kept as it is).
\<close>

definition roster_entries :: "(string \<times> rank_entry) list \<Rightarrow> (string \<times> string \<times> member_info) list" where
  "roster_entries ms =
     concat (map (\<lambda>(rk, e). if rk = ''total'' then []
                               else (case e of
                                       Count n \<Rightarrow> []
                                     | Players ps \<Rightarrow> map (\<lambda>(name, i). (rk, name, i)) ps)) ms)"

definition member_of_entry :: "string \<times> string \<times> member_info \<Rightarrow> member option" where
  "member_of_entry x =
     (case x of (rk, name, i) \<Rightarrow>
        (case i_uuid i of
           Absent \<Rightarrow> None
         | Null \<Rightarrow> None
         | Val u \<Rightarrow>
             if u = [] then None
             else Some \<lparr>uuid = u, guild_name = name, rank = rk,
                        contributed =
                          (case i_contributed i of Absent \<Rightarrow> Some 0 | Null \<Rightarrow> None | Val c \<Rightarrow> Some c),
                        joined =
                          (case i_joined i of
                             Absent \<Rightarrow> Some ''Unknown'' | Null \<Rightarrow> None | Val j \<Rightarrow> Some j)\<rparr>))"

definition roster_spec :: "(string \<times> rank_entry) list \<Rightarrow> member list" where
  "roster_spec ms = List.map_filter member_of_entry (roster_entries ms)"

definition ex_guild_doc :: guild_doc where
  "ex_guild_doc =
     \<lparr>g_name = Some ''Example Guild'',
      g_members = Some
        [(''total'', Count 3),
         (''owner'', Players [(''Foo'', \<lparr>i_uuid = Val ''u1'', i_contributed = Val 7,
                                          i_joined = Val ''2020-05-01T10:00:00.000Z''\<rparr>)]),
         (''recruit'', Players [(''Bar'', \<lparr>i_uuid = Absent, i_contributed = Val 1, i_joined = Absent\<rparr>),
                                (''Baz'', \<lparr>i_uuid = Val ''u3'', i_contributed = Absent,
                                          i_joined = Absent\<rparr>)])]\<rparr>"

subsection \<open>Concrete profiles\<close>

text \<open>
  The values of \<open>datetime.fromisoformat\<close> on two strings: with an offset the result is
  aware, without one it is naive. 2024-01-01 is day 738885 after 0001-01-01. On any other
  string this parser raises.
\<close>

definition ex_parse :: "string \<Rightarrow> datetime option" where
  "ex_parse s =
     (if s = ''2024-01-01T00:00:00+00:00''
      then Some \<lparr>wall_us = 63839664000000000, utcoffset = Some 0\<rparr>
      else if s = ''2024-01-01T00:00:00''
      then Some \<lparr>wall_us = 63839664000000000, utcoffset = None\<rparr>
      else None)"

definition ex_now_us :: int where
  \<comment> \<open>2024-01-02T01:02:03.500000 UTC\<close>
  "ex_now_us = 63839754123500000"

definition ex_profile :: "string field \<Rightarrow> player_doc" where
  "ex_profile lj = \<lparr>d_username = Val ''FooBar'', d_playtime = Val (25 / 2), d_lastJoin = lj\<rparr>"

subsection \<open>A concrete run\<close>

text \<open>
  A world in which the profile of \<open>u1\<close> is served and every other profile request is
  answered 429, the webhook variable is set to the empty string, and the clock stands at
  \<open>ex_now_us\<close>.
\<close>

definition ex_world :: world where
  "ex_world =
     \<lparr>environ = [''GUILD_PREFIX'' \<mapsto> ''EXG'', ''WEBHOOK_URL'' \<mapsto> ''''],
      http_guild = (\<lambda>t u. Inr \<lparr>status_code = 200, reason = ''OK'', url = u,
                                   json = Inr ex_guild_doc\<rparr>),
      http_player = (\<lambda>t u. if u = ''https://api.wynncraft.com/v3/player/u1''
                             then Inr \<lparr>status_code = 200, reason = ''OK'', url = u,
                                       json = Inr (ex_profile (Val ''2024-01-01T00:00:00Z''))\<rparr>
                             else ex_get_429 t u),
      http_post = (\<lambda>t u. Inl ''connection refused''),
      utcnow_us = (\<lambda>t. ex_now_us),
      strftime_now = (\<lambda>t. ''2024-01-02 08:02:03''),
      fromisoformat = ex_parse\<rparr>"

definition ex_members :: "member list" where
  "ex_members =
     [\<lparr>uuid = ''u3'', guild_name = ''Baz'', rank = ''recruit'', contributed = Some 0,
       joined = Some ''Unknown''\<rparr>,
      \<lparr>uuid = ''u1'', guild_name = ''Foo'', rank = ''owner'', contributed = Some 7,
       joined = Some ''2020-05-01T10:00:00.000Z''\<rparr>]"

definition ex_error_row :: row where
  "ex_error_row =
     \<lparr>row_uuid = ''u3'', row_guild_name = ''Baz'', row_rank = ''recruit'',
      row_contributed = None, row_joined = None, row_current_name = Some ''Error'',
      row_playtime = Some 0,
      row_delta_str = ''Error: Failed to fetch after 5 attempts: https://api.wynncraft.com/v3/player/u3'',
      row_last_join_dt = None, row_inactivity_seconds = None\<rparr>"

definition ex_active_row :: row where
  "ex_active_row =
     \<lparr>row_uuid = ''u1'', row_guild_name = ''Foo'', row_rank = ''owner'',
      row_contributed = Some (Some 7), row_joined = Some (Some ''2020-05-01T10:00:00.000Z''),
      row_current_name = Some ''FooBar'', row_playtime = Some (25 / 2),
      row_delta_str = ''1d 1h 2m ago'',
      row_last_join_dt = Some (Some \<lparr>wall_us = 63839664000000000, utcoffset = Some 0\<rparr>),
      row_inactivity_seconds = Some (Seconds 90123)\<rparr>"

definition ex_long_row :: row where
  "ex_long_row =
     ex_active_row\<lparr>row_guild_name := ''ABCDEFGHIJKLMNOPQRSTUVWXY'', row_playtime := Some 10000\<rparr>"


definition ex_rows :: "row list" where
  \<comment> \<open>two placeholders, a row of 5 seconds and the row of 90123 seconds\<close>
  "ex_rows =
     [ex_error_row, ex_active_row\<lparr>row_inactivity_seconds := Some (Seconds 5)\<rparr>, ex_active_row,
      ex_error_row\<lparr>row_uuid := ''u4''\<rparr>]"


section \<open>Properties\<close>

subsection \<open>The HTTP fetcher\<close>

lemma attempt_fails_step:
  "attempt_fails (get (length s) u) \<Longrightarrow>
   attempts get u (a # as) s = attempts get u as (s @ [Get u, Sleep RETRY_DELAY])"
  by (auto simp: attempt_fails_def raise_for_status_def split: sum.splits)

lemma attempt_ok_step:
  "get (length s) u = Inr resp \<Longrightarrow> \<not> attempt_fails (Inr resp) \<Longrightarrow>
   attempts get u (a # as) s = (Inr resp, s @ [Get u])"
  by (auto simp: attempt_fails_def raise_for_status_def split: sum.splits)

lemma attempt_cases:
  "attempt_fails a \<or> (\<exists>resp. a = Inr resp \<and> \<not> attempt_fails (Inr resp))"
  by (cases a) (auto simp: attempt_fails_def)

lemma attempts_char:
  "\<exists>k \<le> length as.
     (\<forall>j<k. attempt_fails (get (length s + 2 * j) u)) \<and>
     (if k = length as
      then attempts get u as s =
             (Inl (Exception (''Failed to fetch after '' @ str_nat MAX_RETRIES @ '' attempts: '' @ u)),
              s @ concat (replicate k [Get u, Sleep RETRY_DELAY]))
      else \<exists>resp. get (length s + 2 * k) u = Inr resp \<and> \<not> attempt_fails (Inr resp) \<and>
             attempts get u as s =
               (Inr resp, s @ concat (replicate k [Get u, Sleep RETRY_DELAY]) @ [Get u]))"
proof (induction as arbitrary: s)
  case Nil
  show ?case by simp
next
  case (Cons a as)
  let ?s' = "s @ [Get u, Sleep RETRY_DELAY]"
  from attempt_cases [of "get (length s) u"] show ?case
  proof
    assume f: "attempt_fails (get (length s) u)"
    from Cons.IH [of ?s'] obtain k where k: "k \<le> length as"
      and fs: "\<forall>j<k. attempt_fails (get (length ?s' + 2 * j) u)"
      and r: "if k = length as
      then attempts get u as ?s' =
             (Inl (Exception (''Failed to fetch after '' @ str_nat MAX_RETRIES @ '' attempts: '' @ u)),
              ?s' @ concat (replicate k [Get u, Sleep RETRY_DELAY]))
      else \<exists>resp. get (length ?s' + 2 * k) u = Inr resp \<and> \<not> attempt_fails (Inr resp) \<and>
             attempts get u as ?s' =
               (Inr resp, ?s' @ concat (replicate k [Get u, Sleep RETRY_DELAY]) @ [Get u])"
      by blast
    have all: "\<forall>j<Suc k. attempt_fails (get (length s + 2 * j) u)"
    proof (intro allI impI)
      fix j assume "j < Suc k"
      show "attempt_fails (get (length s + 2 * j) u)"
      proof (cases j)
        case 0 then show ?thesis using f by simp
      next
        case (Suc i)
        with \<open>j < Suc k\<close> fs have "attempt_fails (get (length ?s' + 2 * i) u)" by simp
        then show ?thesis using Suc by (simp add: add.commute add.left_commute)
      qed
    qed
    show ?thesis
      apply (rule exI [of _ "Suc k"])
      using k all r attempt_fails_step [of get s u a as] f
      by (auto simp: add.commute add.left_commute)
  next
    assume "\<exists>resp. get (length s) u = Inr resp \<and> \<not> attempt_fails (Inr resp)"
    then obtain resp where g: "get (length s) u = Inr resp" and ok: "\<not> attempt_fails (Inr resp)"
      by blast
    show ?thesis
      apply (rule exI [of _ 0])
      using g ok attempt_ok_step [of get s u resp a as] by simp
  qed
qed

lemma str_nat_5: "str_nat 5 = ''5''"
  by (simp add: str_nat.simps digit_char_def)

lemma count_gets_append: "count_gets (a @ b) = count_gets a + count_gets b"
  by (simp add: count_gets_def)

lemma count_gets_replicate:
  "count_gets (concat (replicate k [Get u, Sleep d])) = k"
  by (induction k) (simp_all add: count_gets_def)

lemma safe_request_char:
  "\<exists>k \<le> 5.
     (\<forall>j<k. attempt_fails (get (length s + 2 * j) u)) \<and>
     (if k = 5
      then safe_request get u s =
             (Inl (Exception (''Failed to fetch after 5 attempts: '' @ u)),
              s @ concat (replicate 5 [Get u, Sleep RETRY_DELAY]))
      else \<exists>resp. get (length s + 2 * k) u = Inr resp \<and> \<not> attempt_fails (Inr resp) \<and>
             safe_request get u s =
               (Inr resp, s @ concat (replicate k [Get u, Sleep RETRY_DELAY]) @ [Get u]))"
proof -
  have len: "length [1 ..< MAX_RETRIES + 1] = 5" by (simp add: MAX_RETRIES_def)
  have msg: "''Failed to fetch after '' @ str_nat MAX_RETRIES @ '' attempts: '' @ u
             = ''Failed to fetch after 5 attempts: '' @ u"
    by (simp add: MAX_RETRIES_def str_nat_5)
  from attempts_char [of "[1 ..< MAX_RETRIES + 1]" get s u, unfolded len msg, folded safe_request_def]
  obtain k where k: "k \<le> 5"
    and fs: "\<forall>j<k. attempt_fails (get (length s + 2 * j) u)"
    and r: "if k = 5
      then safe_request get u s =
             (Inl (Exception (''Failed to fetch after 5 attempts: '' @ u)),
              s @ concat (replicate k [Get u, Sleep RETRY_DELAY]))
      else \<exists>resp. get (length s + 2 * k) u = Inr resp \<and> \<not> attempt_fails (Inr resp) \<and>
             safe_request get u s =
               (Inr resp, s @ concat (replicate k [Get u, Sleep RETRY_DELAY]) @ [Get u])"
    by blast
  show ?thesis
    apply (rule exI [of _ k])
    using k fs r by (simp split: if_splits)
qed

text \<open>
  Claim C4. For every URL the fetcher makes at most five requests. The first \<open>k\<close> attempts
  fail (the request raises, or is answered 429 or another 4xx/5xx status), each followed by
  the fixed cooldown \<open>RETRY_DELAY\<close> and each consuming one of the five attempts. Either
  \<open>k = 5\<close> and the fetcher raises the exception whose message ends with the URL, or the
  next attempt succeeds and its response is returned.
\<close>

theorem safe_request_attempts:
  "\<exists>k \<le> 5.
     (\<forall>j<k. attempt_fails (get (length s + 2 * j) u)) \<and>
     (if k = 5
      then safe_request get u s =
             (Inl (Exception (''Failed to fetch after 5 attempts: '' @ u)),
              s @ concat (replicate 5 [Get u, Sleep RETRY_DELAY]))
      else \<exists>resp. get (length s + 2 * k) u = Inr resp \<and> \<not> attempt_fails (Inr resp) \<and>
             safe_request get u s =
               (Inr resp, s @ concat (replicate k [Get u, Sleep RETRY_DELAY]) @ [Get u])) \<and>
     count_gets (snd (safe_request get u s)) \<le> count_gets s + 5"
proof -
  from safe_request_char [of get s u]
  obtain k where k: "k \<le> 5"
    and fs: "\<forall>j<k. attempt_fails (get (length s + 2 * j) u)"
    and r: "if k = 5
      then safe_request get u s =
             (Inl (Exception (''Failed to fetch after 5 attempts: '' @ u)),
              s @ concat (replicate 5 [Get u, Sleep RETRY_DELAY]))
      else \<exists>resp. get (length s + 2 * k) u = Inr resp \<and> \<not> attempt_fails (Inr resp) \<and>
             safe_request get u s =
               (Inr resp, s @ concat (replicate k [Get u, Sleep RETRY_DELAY]) @ [Get u])"
    by blast
  have c: "count_gets (snd (safe_request get u s)) \<le> count_gets s + 5"
  proof (cases "k = 5")
    case True
    with r show ?thesis by (simp add: count_gets_append count_gets_replicate)
  next
    case False
    with r k show ?thesis
      by (auto simp: count_gets_append count_gets_replicate) (simp add: count_gets_def)
  qed
  show ?thesis
    apply (rule exI [of _ k])
    using k fs r c by auto
qed

theorem safe_request_attempts_witness:
  "safe_request ex_get_429 ''https://api.wynncraft.com/v3/player/u1'' [] =
     (Inl (Exception ''Failed to fetch after 5 attempts: https://api.wynncraft.com/v3/player/u1''),
      concat (replicate 5 [Get ''https://api.wynncraft.com/v3/player/u1'', Sleep 5]))"
proof -
  have f: "\<And>t u resp. ex_get_429 t u = Inr resp \<Longrightarrow> attempt_fails (Inr resp)"
    by (auto simp: attempt_fails_def ex_get_429_def)
  from safe_request_attempts [of ex_get_429 "[]" "''https://api.wynncraft.com/v3/player/u1''"]
  show ?thesis using f by (auto simp: RETRY_DELAY_def split: if_splits)
qed

text \<open>
  Claim C10, as stated, fails: a response with status 304 passes \<open>raise_for_status\<close> and is
  returned to the caller, and 304 is not a 2xx status.
\<close>

theorem safe_request_returns_304:
  "safe_request ex_get_304 ''https://api.wynncraft.com/v3/player/u1'' [] =
     (Inr \<lparr>status_code = 304, reason = ''Not Modified'',
           url = ''https://api.wynncraft.com/v3/player/u1'', json = Inl ''Expecting value''\<rparr>,
      [Get ''https://api.wynncraft.com/v3/player/u1''])"
  by (simp add: safe_request_def MAX_RETRIES_def upt_rec ex_get_304_def raise_for_status_def)

text \<open>
  Claim C10, amended. Whenever the fetcher returns normally, the returned response is the
  answer of one of its requests and its status is neither 429 nor any other status from
  400 to 599: such a response always leads to another attempt or, after the fifth, to the
  exception.
\<close>

theorem safe_request_returned_status:
  "safe_request get u s = (Inr resp, s') \<Longrightarrow>
     status_code resp \<noteq> 429 \<and> \<not> (400 \<le> status_code resp \<and> status_code resp < 600) \<and>
     (\<exists>t. get t u = Inr resp)"
proof -
  assume a: "safe_request get u s = (Inr resp, s')"
  from safe_request_char [of get s u] obtain k where
    r: "if k = 5
      then safe_request get u s =
             (Inl (Exception (''Failed to fetch after 5 attempts: '' @ u)),
              s @ concat (replicate 5 [Get u, Sleep RETRY_DELAY]))
      else \<exists>resp. get (length s + 2 * k) u = Inr resp \<and> \<not> attempt_fails (Inr resp) \<and>
             safe_request get u s =
               (Inr resp, s @ concat (replicate k [Get u, Sleep RETRY_DELAY]) @ [Get u])"
    by blast
  with a have "get (length s + 2 * k) u = Inr resp \<and> \<not> attempt_fails (Inr resp)"
    by (auto split: if_splits)
  then show ?thesis by (auto simp: attempt_fails_def)
qed

theorem safe_request_returned_status_witness:
  "safe_request ex_get_200 ''https://api.wynncraft.com/v3/player/u1'' [] =
     (Inr \<lparr>status_code = 200, reason = ''OK'', url = ''https://api.wynncraft.com/v3/player/u1'',
           json = Inr \<lparr>d_username = Val ''FooBar'', d_playtime = Val (25 / 2), d_lastJoin = Absent\<rparr>\<rparr>,
      [Get ''https://api.wynncraft.com/v3/player/u1'']) \<and>
   (200::nat) \<noteq> 429 \<and> \<not> (400 \<le> (200::nat) \<and> (200::nat) < 600)"
proof -
  have e: "safe_request ex_get_200 ''https://api.wynncraft.com/v3/player/u1'' [] =
     (Inr \<lparr>status_code = 200, reason = ''OK'', url = ''https://api.wynncraft.com/v3/player/u1'',
           json = Inr \<lparr>d_username = Val ''FooBar'', d_playtime = Val (25 / 2), d_lastJoin = Absent\<rparr>\<rparr>,
      [Get ''https://api.wynncraft.com/v3/player/u1''])"
    by (simp add: safe_request_def MAX_RETRIES_def upt_rec ex_get_200_def raise_for_status_def)
  from safe_request_returned_status [OF e] e show ?thesis by simp
qed

subsection \<open>The roster loader\<close>

lemma map_filter_app:
  "List.map_filter f (xs @ ys) = List.map_filter f xs @ List.map_filter f ys"
  by (simp add: List.map_filter_def)

lemma players_loop_spec:
  "players_loop rk ps members =
     members @ List.map_filter member_of_entry (map (\<lambda>(name, i). (rk, name, i)) ps)"
  by (induction ps arbitrary: members)
     (auto simp: List.map_filter_simps member_of_entry_def dict_get_def dict_get_default_def
           split: field.splits)

lemma ranks_loop_spec:
  "\<forall>(rk, e) \<in> set ms. rk \<noteq> ''total'' \<longrightarrow> (\<exists>ps. e = Players ps) \<Longrightarrow>
   ranks_loop ms members = Inr (members @ roster_spec ms)"
proof (induction ms arbitrary: members)
  case Nil
  show ?case by (simp add: roster_spec_def roster_entries_def List.map_filter_simps)
next
  case (Cons x ms)
  obtain rk e where x: "x = (rk, e)" by (cases x)
  have IH: "\<And>members. ranks_loop ms members = Inr (members @ roster_spec ms)"
    using Cons by simp
  show ?case
  proof (cases "rk = ''total''")
    case True
    then show ?thesis using x IH
      by (simp add: roster_spec_def roster_entries_def)
  next
    case False
    with Cons.prems x obtain ps where e: "e = Players ps" by auto
    show ?thesis using x e False IH
      by (simp add: players_loop_spec roster_spec_def roster_entries_def map_filter_app)
  qed
qed

lemma roster_spec_rank:
  "m \<in> set (roster_spec ms) \<Longrightarrow> rank m \<noteq> ''total'' \<and> uuid m \<noteq> []"
  by (auto simp: roster_spec_def roster_entries_def List.map_filter_def member_of_entry_def
           split: if_splits field.splits rank_entry.splits)

text \<open>
  Claim C9. For every roster document (a name, and a mapping of ranks in which every rank
  other than the aggregate key \<open>total\<close> holds a mapping of players), the loader returns
  exactly the roster of the specification: nothing under the key \<open>total\<close>, no Member for
  an entry whose identifier is absent, null or empty (and no error for it), and for every other
  entry one Member, in document order, with contribution count 0 and join date \<open>Unknown\<close>
  when those fields are absent.
\<close>

theorem guild_members_roster:
  "g_members data = Some ms \<Longrightarrow> g_name data = Some n \<Longrightarrow>
   \<forall>(rk, e) \<in> set ms. rk \<noteq> ''total'' \<longrightarrow> (\<exists>ps. e = Players ps) \<Longrightarrow>
   guild_members data = Inr (roster_spec ms) \<and>
   (\<forall>m \<in> set (roster_spec ms). rank m \<noteq> ''total'' \<and> uuid m \<noteq> [])"
  using ranks_loop_spec [of ms "[]"] roster_spec_rank [of _ ms]
  by (auto simp: guild_members_def)

theorem guild_members_roster_witness:
  "guild_members ex_guild_doc =
     Inr [\<lparr>uuid = ''u1'', guild_name = ''Foo'', rank = ''owner'', contributed = Some 7,
           joined = Some ''2020-05-01T10:00:00.000Z''\<rparr>,
          \<lparr>uuid = ''u3'', guild_name = ''Baz'', rank = ''recruit'', contributed = Some 0,
           joined = Some ''Unknown''\<rparr>]"
proof -
  have 1: "g_members ex_guild_doc = Some
        [(''total'', Count 3),
         (''owner'', Players [(''Foo'', \<lparr>i_uuid = Val ''u1'', i_contributed = Val 7,
                                          i_joined = Val ''2020-05-01T10:00:00.000Z''\<rparr>)]),
         (''recruit'', Players [(''Bar'', \<lparr>i_uuid = Absent, i_contributed = Val 1, i_joined = Absent\<rparr>),
                                (''Baz'', \<lparr>i_uuid = Val ''u3'', i_contributed = Absent,
                                          i_joined = Absent\<rparr>)])]"
    by (simp add: ex_guild_doc_def)
  have 2: "g_name ex_guild_doc = Some ''Example Guild''" by (simp add: ex_guild_doc_def)
  from guild_members_roster [OF 1 2] show ?thesis
    by (simp add: roster_spec_def roster_entries_def List.map_filter_simps member_of_entry_def)
qed

subsection \<open>The activity record\<close>

text \<open>
  Claim C6. For every player profile: if the last-login timestamp is absent (or null, or
  empty), the
  activity record has the delta string \<open>Never joined\<close>, no last-login instant and the
  infinite inactivity; if it is present and \<open>fromisoformat\<close> raises on it (after every
  \<open>Z\<close> has been replaced by \<open>+00:00\<close>), the record is the same except for the delta
  string \<open>Invalid date\<close>.
\<close>

theorem player_activity_no_instant:
  "(d_lastJoin data = Absent \<or> d_lastJoin data = Null \<or> d_lastJoin data = Val [] \<longrightarrow>
      player_activity parse now uid data =
        Inr \<lparr>current_name =
               (case d_username data of Absent \<Rightarrow> Some uid | Null \<Rightarrow> None | Val n \<Rightarrow> Some n),
             playtime = (case d_playtime data of Absent \<Rightarrow> Some 0 | Null \<Rightarrow> None | Val p \<Rightarrow> Some p),
             delta_str = ''Never joined'', last_join_dt = None, inactivity_seconds = Infinity\<rparr>) \<and>
   (\<forall>s. d_lastJoin data = Val s \<and> s \<noteq> [] \<and> parse (replace_Z s) = None \<longrightarrow>
      player_activity parse now uid data =
        Inr \<lparr>current_name =
               (case d_username data of Absent \<Rightarrow> Some uid | Null \<Rightarrow> None | Val n \<Rightarrow> Some n),
             playtime = (case d_playtime data of Absent \<Rightarrow> Some 0 | Null \<Rightarrow> None | Val p \<Rightarrow> Some p),
             delta_str = ''Invalid date'', last_join_dt = None, inactivity_seconds = Infinity\<rparr>)"
  by (auto simp: player_activity_def Let_def dict_get_def dict_get_default_def split: field.splits)

theorem player_activity_no_instant_witness:
  "player_activity ex_parse ex_now_us ''u1'' (ex_profile Absent) =
     Inr \<lparr>current_name = Some ''FooBar'', playtime = Some (25 / 2), delta_str = ''Never joined'',
          last_join_dt = None, inactivity_seconds = Infinity\<rparr> \<and>
   player_activity ex_parse ex_now_us ''u1'' (ex_profile (Val ''yesterday'')) =
     Inr \<lparr>current_name = Some ''FooBar'', playtime = Some (25 / 2), delta_str = ''Invalid date'',
          last_join_dt = None, inactivity_seconds = Infinity\<rparr>"
proof -
  have p: "ex_parse (replace_Z ''yesterday'') = None"
    by (simp add: ex_parse_def replace_Z_def)
  from player_activity_no_instant [of "ex_profile Absent" ex_parse ex_now_us "''u1''"]
       player_activity_no_instant [of "ex_profile (Val ''yesterday'')" ex_parse ex_now_us "''u1''"] p
  show ?thesis by (simp add: ex_profile_def)
qed

text \<open>
  The elapsed time of an offset-aware timestamp: the days, hours and minutes of the delta
  string and the truncated seconds, in terms of the elapsed microseconds.
\<close>

lemma div_lt_upper:
  fixes b x c :: int
  assumes "0 < b" "x < b * c"
  shows "x div b < c"
proof (rule ccontr)
  assume "\<not> x div b < c"
  then have "c \<le> x div b" by simp
  then have "b * c \<le> b * (x div b)" using assms(1) by (simp add: mult_left_mono)
  moreover have "b * (x div b) + x mod b = x" by simp
  moreover have "0 \<le> x mod b" using assms(1) by simp
  ultimately show False using assms(2) by linarith
qed

lemma hm_ranges: "0 \<le> (x::int) \<Longrightarrow> x < 86400 \<Longrightarrow> 0 \<le> x div 3600 \<and> x div 3600 < 24 \<and> 0 \<le> x mod 3600 div 60 \<and> x mod 3600 div 60 < 60"
  by linarith

lemma split3:
  fixes n a b :: int
  shows "(n div (a * b) * a + n mod (a * b) div b) * b + n mod b = n"
proof -
  have "n mod (a * b) mod b = n mod b" by (simp add: mod_mod_cancel)
  then have "n mod (a * b) div b * b + n mod b = n mod (a * b)"
    using div_mult_mod_eq [of "n mod (a * b)" b] by simp
  moreover have "n div (a * b) * (a * b) + n mod (a * b) = n"
    by (rule div_mult_mod_eq)
  ultimately show ?thesis by (simp add: algebra_simps)
qed

lemma div_mod_swap:
  fixes y b c :: int
  assumes "0 < b" "0 \<le> c"
  shows "y div b mod c = y mod (b * c) div b"
proof -
  have "y mod (b * c) = b * (y div b mod c) + y mod b"
    using assms(2) by (rule zmod_zmult2_eq)
  moreover have "(b * (y div b mod c) + y mod b) div b = y div b mod c + y mod b div b"
    using assms(1) by simp
  moreover have "y mod b div b = 0" using assms(1) by (simp add: div_pos_pos_trivial)
  ultimately show ?thesis by simp
qed

lemma us_recompose: "(n div 86400000000 * 86400 + n mod 86400000000 div 1000000) * 1000000 + n mod 1000000 = (n::int)"
  using split3 [of n 86400 1000000] by simp

lemma seconds_range: "0 \<le> (n::int) mod 86400000000 div 1000000 \<and> n mod 86400000000 div 1000000 < 86400"
proof -
  have "0 \<le> n mod 86400000000" "n mod 86400000000 < 1000000 * 86400" by simp_all
  then show ?thesis using div_lt_upper [of 1000000 "n mod 86400000000" 86400]
    by (simp add: pos_imp_zdiv_nonneg_iff)
qed

lemma minutes_of_us: "(n::int) mod 86400000000 div 1000000 mod 3600 div 60 = n mod 3600000000 div 60000000"
proof -
  have d: "(3600000000::int) dvd 86400000000" by simp
  have e: "n mod 86400000000 mod 3600000000 = n mod 3600000000"
    using mod_mod_cancel [OF d, of n] .
  have "n mod 86400000000 div 1000000 mod 3600 = n mod 86400000000 mod 3600000000 div 1000000"
    using div_mod_swap [of 1000000 3600 "n mod 86400000000"] by simp
  then have "n mod 86400000000 div 1000000 mod 3600 = n mod 3600000000 div 1000000"
    using e by simp
  moreover have "n mod 3600000000 div 1000000 div 60 = n mod 3600000000 div 60000000" by simp
  ultimately show ?thesis by simp
qed

lemma total_seconds_td_of_us: "total_seconds (td_of_us n) = of_int n / 1000000"
  using us_recompose [of n] by (simp add: total_seconds_def td_of_us_def)

lemma int_of_float_quotient:
  "int_of_float (of_int n / 1000000) = (if 0 \<le> n then n div 1000000 else - ((- n) div 1000000))"
proof -
  have f: "\<lfloor>(of_int n :: rat) / 1000000\<rfloor> = n div 1000000"
    using floor_divide_of_int_eq [of n 1000000, where ?'a = rat] by simp
  have c: "\<lceil>(of_int n :: rat) / 1000000\<rceil> = - ((- n) div 1000000)"
    using floor_divide_of_int_eq [of "- n" 1000000, where ?'a = rat] by (simp add: ceiling_def)
  have s: "(0 \<le> (of_int n :: rat) / 1000000) = (0 \<le> n)" by simp
  show ?thesis unfolding int_of_float_def s using f c by simp
qed

lemma td_of_us_ranges:
  "0 \<le> seconds (td_of_us n) div 3600 \<and> seconds (td_of_us n) div 3600 < 24 \<and>
   0 \<le> seconds (td_of_us n) mod 3600 div 60 \<and> seconds (td_of_us n) mod 3600 div 60 < 60"
  using seconds_range [of n] hm_ranges [of "seconds (td_of_us n)"] by (simp add: td_of_us_def)

lemma player_activity_aware:
  assumes "d_lastJoin data = Val s" "s \<noteq> []" "parse (replace_Z s) = Some dt"
    and "utcoffset dt = Some off"
    and "elapsed = now - (wall_us dt - off)"
  shows "player_activity parse now uid data =
     Inr \<lparr>current_name =
            (case d_username data of Absent \<Rightarrow> Some uid | Null \<Rightarrow> None | Val n \<Rightarrow> Some n),
          playtime = (case d_playtime data of Absent \<Rightarrow> Some 0 | Null \<Rightarrow> None | Val p \<Rightarrow> Some p),
          delta_str = str_int (elapsed div 86400000000) @ ''d ''
                      @ str_int (elapsed mod 86400000000 div 3600000000) @ ''h ''
                      @ str_int (elapsed mod 3600000000 div 60000000) @ ''m ago'',
          last_join_dt = Some dt,
          inactivity_seconds =
            Seconds (if 0 \<le> elapsed then elapsed div 1000000 else - ((- elapsed) div 1000000))\<rparr>"
proof -
  have d: "dt_sub \<lparr>wall_us = now, utcoffset = Some 0\<rparr> dt = Inr (td_of_us elapsed)"
    using assms by (simp add: dt_sub_def)
  have h: "seconds (td_of_us elapsed) div 3600 = elapsed mod 86400000000 div 3600000000"
    by (simp add: td_of_us_def)
  have m: "seconds (td_of_us elapsed) mod 3600 div 60 = elapsed mod 3600000000 div 60000000"
    by (simp add: td_of_us_def minutes_of_us)
  have dd: "days (td_of_us elapsed) = elapsed div 86400000000" by (simp add: td_of_us_def)
  show ?thesis
    using assms(1-3) d
    by (simp add: player_activity_def Let_def h m dd total_seconds_td_of_us int_of_float_quotient
          dict_get_def dict_get_default_def)
qed

lemma player_activity_naive:
  assumes "d_lastJoin data = Val s" "s \<noteq> []" "parse (replace_Z s) = Some dt"
    and "utcoffset dt = None"
  shows "player_activity parse now uid data =
     Inl (TypeError (''can'' @ [CHR 0x27] @ ''t subtract offset-naive and offset-aware datetimes''))"
  using assms by (simp add: player_activity_def Let_def dt_sub_def dict_get_def)

lemma ex_aware:
  "player_activity ex_parse ex_now_us ''u1'' (ex_profile (Val ''2024-01-01T00:00:00Z'')) =
     Inr \<lparr>current_name = Some ''FooBar'', playtime = Some (25 / 2), delta_str = ''1d 1h 2m ago'',
          last_join_dt = Some \<lparr>wall_us = 63839664000000000, utcoffset = Some 0\<rparr>,
          inactivity_seconds = Seconds 90123\<rparr>"
proof -
  have p: "ex_parse (replace_Z ''2024-01-01T00:00:00Z'') = Some \<lparr>wall_us = 63839664000000000, utcoffset = Some 0\<rparr>"
    by (simp add: ex_parse_def replace_Z_def)
  have 1: "d_lastJoin (ex_profile (Val ''2024-01-01T00:00:00Z'')) = Val ''2024-01-01T00:00:00Z''"
    by (simp add: ex_profile_def)
  from player_activity_aware
         [where data = "ex_profile (Val ''2024-01-01T00:00:00Z'')" and s = "''2024-01-01T00:00:00Z''"
            and parse = ex_parse and dt = "\<lparr>wall_us = 63839664000000000, utcoffset = Some 0\<rparr>"
            and off = 0 and now = ex_now_us and uid = "''u1''" and elapsed = 90123500000]
       1 p
  show ?thesis
    by (simp add: ex_profile_def ex_now_us_def str_int_def str_nat.simps digit_char_def)
qed

text \<open>
  Claim C7 does not hold of the code. The timestamp \<open>2024-01-01T00:00:00\<close> parses (to a
  naive value, as it carries no offset), and subtracting it from the aware current instant
  raises \<open>TypeError\<close>: there is no activity record, hence no inactivity value and no delta
  string of the form the claim gives.
\<close>

theorem player_activity_naive_timestamp:
  "player_activity ex_parse ex_now_us ''u1'' (ex_profile (Val ''2024-01-01T00:00:00'')) =
     Inl (TypeError (''can'' @ [CHR 0x27] @ ''t subtract offset-naive and offset-aware datetimes''))"
  by (simp add: player_activity_def Let_def ex_profile_def ex_parse_def replace_Z_def dt_sub_def
        dict_get_def)

subsection \<open>The per-member loop\<close>

lemma member_loop_single:
  "member_loop w [m] acc s =
     (case fetch_player_info w (uuid m) s of
        (Inr i, s') \<Rightarrow> (acc @ [merged m i], s' @ [Sleep_uniform DELAY_MIN DELAY_MAX])
      | (Inl e, s') \<Rightarrow> (acc @ [placeholder m e], s' @ [Sleep_uniform DELAY_MIN DELAY_MAX]))"
  by (simp split: prod.splits sum.splits)

lemma member_loop_append:
  "member_loop w (xs @ ys) acc s =
     member_loop w ys (fst (member_loop w xs acc s)) (snd (member_loop w xs acc s))"
  by (induction xs arbitrary: acc s) (auto split: prod.splits sum.splits)

lemma member_loop_acc:
  "member_loop w ms acc s = (acc @ fst (member_loop w ms [] s), snd (member_loop w ms [] s))"
proof (induction ms arbitrary: acc s)
  case Nil
  show ?case by simp
next
  case (Cons m ms)
  show ?case
    using Cons.IH [of "acc @ [x]" for x] Cons.IH [of "[x]" for x]
    by (auto split: prod.splits sum.splits)
qed

lemma member_loop_length: "length (fst (member_loop w ms [] s)) = length ms"
proof (induction ms arbitrary: s)
  case Nil
  show ?case by simp
next
  case (Cons m ms)
  have "member_loop w (m # ms) [] s =
          member_loop w ms (fst (member_loop w [m] [] s)) (snd (member_loop w [m] [] s))"
    using member_loop_append [of w "[m]" ms "[]" s] by simp
  also have "\<dots> = (fst (member_loop w [m] [] s) @ fst (member_loop w ms [] (snd (member_loop w [m] [] s))),
                   snd (member_loop w ms [] (snd (member_loop w [m] [] s))))"
    by (rule member_loop_acc)
  finally show ?case using Cons.IH
    by (simp add: member_loop_single split: prod.splits sum.splits)
qed

lemma member_loop_nth:
  assumes "i < length ms"
  shows "[fst (member_loop w ms [] s) ! i] =
           fst (member_loop w [ms ! i] [] (snd (member_loop w (take i ms) [] s)))"
proof -
  let ?pre = "take i ms" and ?post = "drop (Suc i) ms"
  let ?s1 = "snd (member_loop w ?pre [] s)"
  let ?r0 = "fst (member_loop w ?pre [] s)"
  let ?s2 = "snd (member_loop w [ms ! i] [] ?s1)"
  let ?r1 = "fst (member_loop w [ms ! i] [] ?s1)"
  have ms: "ms = ?pre @ ([ms ! i] @ ?post)" using assms by (simp add: id_take_nth_drop)
  have "member_loop w ms [] s = member_loop w (?pre @ ([ms ! i] @ ?post)) [] s"
    using ms by simp
  also have "\<dots> = member_loop w ([ms ! i] @ ?post) ?r0 ?s1"
    by (rule member_loop_append)
  also have "\<dots> = member_loop w ?post (fst (member_loop w [ms ! i] ?r0 ?s1))
                      (snd (member_loop w [ms ! i] ?r0 ?s1))"
    by (rule member_loop_append)
  also have "member_loop w [ms ! i] ?r0 ?s1 = (?r0 @ ?r1, ?s2)"
    by (rule member_loop_acc)
  also have "member_loop w ?post (fst (?r0 @ ?r1, ?s2)) (snd (?r0 @ ?r1, ?s2))
             = ((?r0 @ ?r1) @ fst (member_loop w ?post [] ?s2), snd (member_loop w ?post [] ?s2))"
    using member_loop_acc [of w ?post "?r0 @ ?r1" ?s2] by simp
  finally have e: "fst (member_loop w ms [] s) = ?r0 @ ?r1 @ fst (member_loop w ?post [] ?s2)"
    by simp
  have l0: "length ?r0 = i" using assms by (simp add: member_loop_length)
  have l1: "length ?r1 = 1" using member_loop_length [of w "[ms ! i]" ?s1] by simp
  then obtain r where r: "?r1 = [r]" by (cases ?r1) auto
  have "fst (member_loop w ms [] s) ! i = r"
    using e l0 r by (simp add: nth_append)
  then show ?thesis using r by simp
qed

lemma exhausted:
  assumes "\<forall>j<5. attempt_fails (get (length s + 2 * j) u)"
  shows "safe_request get u s =
           (Inl (Exception (''Failed to fetch after 5 attempts: '' @ u)),
            s @ concat (replicate 5 [Get u, Sleep RETRY_DELAY]))"
proof -
  from safe_request_char [of get s u] obtain k where k: "k \<le> 5"
    and r: "if k = 5
      then safe_request get u s =
             (Inl (Exception (''Failed to fetch after 5 attempts: '' @ u)),
              s @ concat (replicate 5 [Get u, Sleep RETRY_DELAY]))
      else \<exists>resp. get (length s + 2 * k) u = Inr resp \<and> \<not> attempt_fails (Inr resp) \<and>
             safe_request get u s =
               (Inr resp, s @ concat (replicate k [Get u, Sleep RETRY_DELAY]) @ [Get u])"
    by blast
  show ?thesis
  proof (cases "k = 5")
    case True
    with r show ?thesis by simp
  next
    case False
    with k have "k < 5" by simp
    with assms have "attempt_fails (get (length s + 2 * k) u)" by blast
    with r False show ?thesis by auto
  qed
qed

lemma fetch_player_info_exhausted:
  assumes "\<forall>j<5. attempt_fails (http_player w (length s + 2 * j) (API_PLAYER_URL uid))"
  shows "fst (fetch_player_info w uid s) =
           Inl (Exception (''Failed to fetch after 5 attempts: '' @ API_PLAYER_URL uid))"
  using exhausted [of "http_player w" s "API_PLAYER_URL uid"] assms
  by (auto simp: fetch_player_info_def split: prod.splits sum.splits)

text \<open>
  Claim C3. The per-member loop returns for every roster, and with exactly one row per
  member, in the order of the roster: row \<open>i\<close> carries the uuid, in-guild name and rank of
  member \<open>i\<close>. With \<open>s_i\<close> the trace when member \<open>i\<close> is reached: if the profile fetch
  succeeds the row is the merge; if it raises \<open>e\<close> the row is the placeholder, with current
  name \<open>Error\<close>, playtime 0 and delta string \<open>Error: \<close> followed by the text of \<open>e\<close>, and
  the loop goes on; in particular, when all five attempts fail, that text is the message of
  the fetcher, which ends with the URL of the profile.
\<close>

theorem member_loop_rows:
  "length (fst (member_loop w ms [] s)) = length ms \<and>
   (\<forall>i<length ms.
      let m = ms ! i;
          r = fst (member_loop w ms [] s) ! i;
          s_i = snd (member_loop w (take i ms) [] s)
      in row_uuid r = uuid m \<and> row_guild_name r = guild_name m \<and> row_rank r = rank m \<and>
         (case fst (fetch_player_info w (uuid m) s_i) of
            Inr a \<Rightarrow> r = merged m a
          | Inl e \<Rightarrow> r = placeholder m e \<and> row_current_name r = Some ''Error'' \<and> row_playtime r = Some 0 \<and>
                     row_delta_str r = ''Error: '' @ str_exn e) \<and>
         ((\<forall>j<5. attempt_fails (http_player w (length s_i + 2 * j) (API_PLAYER_URL (uuid m)))) \<longrightarrow>
            row_current_name r = Some ''Error'' \<and> row_playtime r = Some 0 \<and>
            row_delta_str r = ''Error: Failed to fetch after 5 attempts: '' @ API_PLAYER_URL (uuid m)))"
proof (intro conjI allI impI)
  show "length (fst (member_loop w ms [] s)) = length ms" by (rule member_loop_length)
next
  fix i assume i: "i < length ms"
  define m where "m = ms ! i"
  define r where "r = fst (member_loop w ms [] s) ! i"
  define s_i where "s_i = snd (member_loop w (take i ms) [] s)"
  have n: "[r] = fst (member_loop w [m] [] s_i)"
    unfolding r_def m_def s_i_def using i by (rule member_loop_nth)
  have c: "case fst (fetch_player_info w (uuid m) s_i) of
            Inr a \<Rightarrow> r = merged m a
          | Inl e \<Rightarrow> r = placeholder m e"
    using n by (auto simp: member_loop_single split: prod.splits sum.splits)
  have 1: "row_uuid r = uuid m \<and> row_guild_name r = guild_name m \<and> row_rank r = rank m"
    using c by (auto simp: merged_def placeholder_def split: sum.splits)
  have 2: "case fst (fetch_player_info w (uuid m) s_i) of
            Inr a \<Rightarrow> r = merged m a
          | Inl e \<Rightarrow> r = placeholder m e \<and> row_current_name r = Some ''Error'' \<and> row_playtime r = Some 0 \<and>
                     row_delta_str r = ''Error: '' @ str_exn e"
    using c by (auto simp: placeholder_def split: sum.splits)
  have 3: "(\<forall>j<5. attempt_fails (http_player w (length s_i + 2 * j) (API_PLAYER_URL (uuid m)))) \<longrightarrow>
            row_current_name r = Some ''Error'' \<and> row_playtime r = Some 0 \<and>
            row_delta_str r = ''Error: Failed to fetch after 5 attempts: '' @ API_PLAYER_URL (uuid m)"
  proof
    assume "\<forall>j<5. attempt_fails (http_player w (length s_i + 2 * j) (API_PLAYER_URL (uuid m)))"
    from fetch_player_info_exhausted [OF this] c
    have "r = placeholder m (Exception (''Failed to fetch after 5 attempts: '' @ API_PLAYER_URL (uuid m)))"
      by simp
    then show
      "row_current_name r = Some ''Error'' \<and> row_playtime r = Some 0 \<and>
       row_delta_str r = ''Error: Failed to fetch after 5 attempts: '' @ API_PLAYER_URL (uuid m)"
      by (simp add: placeholder_def)
  qed
  show "let m = ms ! i;
          r = fst (member_loop w ms [] s) ! i;
          s_i = snd (member_loop w (take i ms) [] s)
      in row_uuid r = uuid m \<and> row_guild_name r = guild_name m \<and> row_rank r = rank m \<and>
         (case fst (fetch_player_info w (uuid m) s_i) of
            Inr a \<Rightarrow> r = merged m a
          | Inl e \<Rightarrow> r = placeholder m e \<and> row_current_name r = Some ''Error'' \<and> row_playtime r = Some 0 \<and>
                     row_delta_str r = ''Error: '' @ str_exn e) \<and>
         ((\<forall>j<5. attempt_fails (http_player w (length s_i + 2 * j) (API_PLAYER_URL (uuid m)))) \<longrightarrow>
            row_current_name r = Some ''Error'' \<and> row_playtime r = Some 0 \<and>
            row_delta_str r = ''Error: Failed to fetch after 5 attempts: '' @ API_PLAYER_URL (uuid m))"
    using 1 2 3 unfolding Let_def m_def r_def s_i_def by blast
qed

lemma ex_fetch_u3:
  "fetch_player_info ex_world ''u3'' s =
     (Inl (Exception ''Failed to fetch after 5 attempts: https://api.wynncraft.com/v3/player/u3''),
      s @ concat (replicate 5 [Get ''https://api.wynncraft.com/v3/player/u3'', Sleep 5]))"
proof -
  have "\<forall>j<5. attempt_fails (http_player ex_world (length s + 2 * j) ''https://api.wynncraft.com/v3/player/u3'')"
    by (simp add: ex_world_def ex_get_429_def attempt_fails_def)
  with exhausted [of "http_player ex_world" s "''https://api.wynncraft.com/v3/player/u3''"]
  have "safe_request (http_player ex_world) ''https://api.wynncraft.com/v3/player/u3'' s =
          (Inl (Exception ''Failed to fetch after 5 attempts: https://api.wynncraft.com/v3/player/u3''),
           s @ concat (replicate 5 [Get ''https://api.wynncraft.com/v3/player/u3'', Sleep 5]))"
    by (simp add: RETRY_DELAY_def)
  then show ?thesis by (simp add: fetch_player_info_def API_PLAYER_URL_def)
qed

lemma ex_fetch_u1:
  "fetch_player_info ex_world ''u1'' s =
     (Inr \<lparr>current_name = Some ''FooBar'', playtime = Some (25 / 2), delta_str = ''1d 1h 2m ago'',
          last_join_dt = Some \<lparr>wall_us = 63839664000000000, utcoffset = Some 0\<rparr>,
          inactivity_seconds = Seconds 90123\<rparr>,
      s @ [Get ''https://api.wynncraft.com/v3/player/u1''])"
proof -
  have "safe_request (http_player ex_world) ''https://api.wynncraft.com/v3/player/u1'' s =
          (Inr \<lparr>status_code = 200, reason = ''OK'', url = ''https://api.wynncraft.com/v3/player/u1'',
                json = Inr (ex_profile (Val ''2024-01-01T00:00:00Z''))\<rparr>,
           s @ [Get ''https://api.wynncraft.com/v3/player/u1''])"
    by (simp add: safe_request_def MAX_RETRIES_def upt_rec ex_world_def raise_for_status_def)
  then show ?thesis
    using ex_aware by (simp add: fetch_player_info_def API_PLAYER_URL_def ex_world_def)
qed

lemma ex_loop:
  "fst (member_loop ex_world ex_members [] []) = [ex_error_row, ex_active_row]"
  by (simp add: ex_members_def ex_fetch_u3 ex_fetch_u1 merged_def placeholder_def
        ex_error_row_def ex_active_row_def)

theorem member_loop_rows_witness:
  "length (fst (member_loop ex_world ex_members [] [])) = 2 \<and>
   row_guild_name (fst (member_loop ex_world ex_members [] []) ! 0) = ''Baz'' \<and>
   row_current_name (fst (member_loop ex_world ex_members [] []) ! 0) = Some ''Error'' \<and>
   row_delta_str (fst (member_loop ex_world ex_members [] []) ! 0) =
     ''Error: Failed to fetch after 5 attempts: https://api.wynncraft.com/v3/player/u3''"
proof -
  have f: "\<forall>j<5. attempt_fails (http_player ex_world (length ([]::trace) + 2 * j) (API_PLAYER_URL ''u3''))"
    by (simp add: ex_world_def ex_get_429_def attempt_fails_def API_PLAYER_URL_def)
  have z: "(0::nat) < length ex_members" "ex_members ! 0 = \<lparr>uuid = ''u3'', guild_name = ''Baz'', rank = ''recruit'', contributed = Some 0,
       joined = Some ''Unknown''\<rparr>" "length ex_members = 2"
    by (simp_all add: ex_members_def)
  from member_loop_rows [of ex_world ex_members "[]"] z f
  show ?thesis
    by (auto simp: Let_def API_PLAYER_URL_def)
qed

subsection \<open>The order of the report\<close>

lemma sort_results_desc:
  "i \<le> j \<Longrightarrow> j < length rows \<Longrightarrow>
   sort_key_of (sort_results rows ! j) \<le> sort_key_of (sort_results rows ! i)"
proof -
  assume ij: "i \<le> j" and j: "j < length rows"
  let ?ks = "map sort_key_of (sort_results rows)"
  have "rev ?ks = map sort_key_of (sort_key sort_key_of (rev rows))"
    by (simp add: sort_results_def rev_map)
  then have "sorted (rev ?ks)" by (simp add: sorted_sort_key)
  then have "?ks ! j \<le> ?ks ! i"
    using ij j by (simp add: sorted_rev_iff_nth_mono sort_results_def)
  then show ?thesis using ij j by (simp add: sort_results_def)
qed

lemma sort_results_stable:
  "filter (\<lambda>r. sort_key_of r = k) (sort_results rows) = filter (\<lambda>r. sort_key_of r = k) rows"
proof -
  have "filter (\<lambda>r. sort_key_of r = k) (sort_results rows)
        = rev (filter (\<lambda>r. sort_key_of r = k) (sort_key sort_key_of (rev rows)))"
    by (simp add: sort_results_def rev_filter)
  also have "\<dots> = rev (filter (\<lambda>r. sort_key_of r = k) (rev rows))"
    by (simp add: sort_key_stable)
  also have "\<dots> = filter (\<lambda>r. sort_key_of r = k) rows"
    by (simp add: rev_filter)
  finally show ?thesis .
qed

lemma sort_results_mset: "mset (sort_results rows) = mset rows"
  by (simp add: sort_results_def)

lemma sort_key_of_Some:
  "row_inactivity_seconds r = Some v \<Longrightarrow> sort_key_of r = v"
  by (simp add: sort_key_of_def)

lemma sort_results_stable_value:
  "filter (\<lambda>r. row_inactivity_seconds r = x) (sort_results rows)
   = filter (\<lambda>r. row_inactivity_seconds r = x) rows"
proof -
  let ?k = "case x of None \<Rightarrow> Seconds 0 | Some v \<Rightarrow> v"
  let ?P = "\<lambda>r. row_inactivity_seconds r = x"
  let ?K = "\<lambda>r. sort_key_of r = ?k"
  have imp: "\<And>r. ?P r \<Longrightarrow> ?K r" by (auto simp: sort_key_of_def)
  have "filter ?P (sort_results rows) = filter ?P (filter ?K (sort_results rows))"
    using imp by (auto simp: filter_filter intro: filter_cong)
  also have "\<dots> = filter ?P (filter ?K rows)" by (simp only: sort_results_stable)
  also have "\<dots> = filter ?P rows"
    using imp by (auto simp: filter_filter intro: filter_cong)
  finally show ?thesis .
qed

text \<open>
  Claim C8. After sorting, the rows are in descending order of inactivity duration: of two
  rows that carry a number of seconds the earlier has the larger one (or the same), and
  every row before a row of infinite inactivity is itself of infinite inactivity; a row
  that carries no duration counts as 0 seconds. Rows with equal inactivity duration keep
  their relative input order, and the sorted sequence is a rearrangement of the input.
\<close>

theorem sort_results_by_inactivity:
  "(\<forall>i j a b. i < j \<and> j < length rows \<and>
       row_inactivity_seconds (sort_results rows ! i) = Some (Seconds a) \<and>
       row_inactivity_seconds (sort_results rows ! j) = Some (Seconds b) \<longrightarrow> b \<le> a) \<and>
   (\<forall>i j. i < j \<and> j < length rows \<and>
       row_inactivity_seconds (sort_results rows ! j) = Some Infinity \<longrightarrow>
       row_inactivity_seconds (sort_results rows ! i) = Some Infinity) \<and>
   (\<forall>i j. i < j \<and> j < length rows \<longrightarrow>
       (case row_inactivity_seconds (sort_results rows ! j) of None \<Rightarrow> Seconds 0 | Some v \<Rightarrow> v)
       \<le> (case row_inactivity_seconds (sort_results rows ! i) of None \<Rightarrow> Seconds 0 | Some v \<Rightarrow> v)) \<and>
   (\<forall>x. filter (\<lambda>r. row_inactivity_seconds r = x) (sort_results rows)
        = filter (\<lambda>r. row_inactivity_seconds r = x) rows) \<and>
   (\<forall>k. filter (\<lambda>r. (case row_inactivity_seconds r of None \<Rightarrow> Seconds 0 | Some v \<Rightarrow> v) = k)
          (sort_results rows)
        = filter (\<lambda>r. (case row_inactivity_seconds r of None \<Rightarrow> Seconds 0 | Some v \<Rightarrow> v) = k) rows) \<and>
   mset (sort_results rows) = mset rows"
proof (intro conjI allI impI)
  fix i j a b
  assume h: "i < j \<and> j < length rows \<and>
       row_inactivity_seconds (sort_results rows ! i) = Some (Seconds a) \<and>
       row_inactivity_seconds (sort_results rows ! j) = Some (Seconds b)"
  then have "sort_key_of (sort_results rows ! j) \<le> sort_key_of (sort_results rows ! i)"
    using sort_results_desc [of i j rows] by simp
  with h show "b \<le> a" by (simp add: sort_key_of_def)
next
  fix i j
  assume h: "i < j \<and> j < length rows \<and>
       row_inactivity_seconds (sort_results rows ! j) = Some Infinity"
  then have "sort_key_of (sort_results rows ! j) \<le> sort_key_of (sort_results rows ! i)"
    using sort_results_desc [of i j rows] by simp
  with h have "Infinity \<le> sort_key_of (sort_results rows ! i)" by (simp add: sort_key_of_def)
  then show "row_inactivity_seconds (sort_results rows ! i) = Some Infinity"
    by (cases "row_inactivity_seconds (sort_results rows ! i)")
       (auto simp: sort_key_of_def elim: less_eq_inact.elims)
next
  fix i j
  assume "i < j \<and> j < length rows"
  then have "sort_key_of (sort_results rows ! j) \<le> sort_key_of (sort_results rows ! i)"
    using sort_results_desc [of i j rows] by simp
  then show "(case row_inactivity_seconds (sort_results rows ! j) of None \<Rightarrow> Seconds 0 | Some v \<Rightarrow> v)
       \<le> (case row_inactivity_seconds (sort_results rows ! i) of None \<Rightarrow> Seconds 0 | Some v \<Rightarrow> v)"
    by (simp add: sort_key_of_def)
next
  fix x
  show "filter (\<lambda>r. row_inactivity_seconds r = x) (sort_results rows)
        = filter (\<lambda>r. row_inactivity_seconds r = x) rows"
    by (rule sort_results_stable_value)
next
  fix k
  show "filter (\<lambda>r. (case row_inactivity_seconds r of None \<Rightarrow> Seconds 0 | Some v \<Rightarrow> v) = k)
          (sort_results rows)
        = filter (\<lambda>r. (case row_inactivity_seconds r of None \<Rightarrow> Seconds 0 | Some v \<Rightarrow> v) = k) rows"
    using sort_results_stable [of k rows] by (simp add: sort_key_of_def)
next
  show "mset (sort_results rows) = mset rows" by (rule sort_results_mset)
qed

lemma ex_sort_rows:
  "sort_results ex_rows =
     [ex_active_row, ex_active_row\<lparr>row_inactivity_seconds := Some (Seconds 5)\<rparr>, ex_error_row,
      ex_error_row\<lparr>row_uuid := ''u4''\<rparr>]"
  by (simp add: ex_rows_def sort_results_def sort_key_of_def ex_error_row_def ex_active_row_def)

theorem sort_results_by_inactivity_witness:
  "sort_results ex_rows ! 0 = ex_active_row \<and>
   sort_results ex_rows ! 1 = ex_active_row\<lparr>row_inactivity_seconds := Some (Seconds 5)\<rparr> \<and>
   (5::int) \<le> 90123 \<and>
   filter (\<lambda>r. row_inactivity_seconds r = None) (sort_results ex_rows)
     = [ex_error_row, ex_error_row\<lparr>row_uuid := ''u4''\<rparr>]"
proof -
  have v: "row_inactivity_seconds (sort_results ex_rows ! 0) = Some (Seconds 90123)"
    "row_inactivity_seconds (sort_results ex_rows ! 1) = Some (Seconds 5)"
    "(0::nat) < 1" "1 < length ex_rows"
    by (simp_all add: ex_sort_rows) (simp_all add: ex_active_row_def ex_rows_def)
  from sort_results_by_inactivity [of ex_rows]
  have a: "\<forall>i j a b. i < j \<and> j < length ex_rows \<and>
       row_inactivity_seconds (sort_results ex_rows ! i) = Some (Seconds a) \<and>
       row_inactivity_seconds (sort_results ex_rows ! j) = Some (Seconds b) \<longrightarrow> b \<le> a"
    and b: "filter (\<lambda>r. row_inactivity_seconds r = None) (sort_results ex_rows)
              = filter (\<lambda>r. row_inactivity_seconds r = None) ex_rows"
    by simp_all
  from a v have "(5::int) \<le> 90123" by blast
  moreover have "filter (\<lambda>r. row_inactivity_seconds r = None) ex_rows
                   = [ex_error_row, ex_error_row\<lparr>row_uuid := ''u4''\<rparr>]"
    by (simp add: ex_rows_def ex_error_row_def ex_active_row_def)
  ultimately show ?thesis using b by (simp add: ex_sort_rows)
qed

text \<open>
  Claim C1 does not hold of the code. In the concrete run the profile of \<open>u3\<close> is
  answered 429 five times and the profile of \<open>u1\<close> has a finite inactivity of 90123
  seconds: the placeholder of \<open>u3\<close> carries no inactivity value, neither the infinite one
  nor a large one, and after the sort it stands below the finite row, at the bottom.
\<close>

theorem error_row_sorted_last:
  "sort_results (fst (member_loop ex_world ex_members [] [])) = [ex_active_row, ex_error_row] \<and>
   row_inactivity_seconds ex_error_row \<noteq> Some Infinity \<and>
   row_inactivity_seconds ex_error_row = None \<and>
   row_inactivity_seconds ex_active_row = Some (Seconds 90123)"
  by (simp add: ex_loop) (simp add: sort_results_def sort_key_of_def ex_error_row_def ex_active_row_def)

text \<open>
  What the code does with every placeholder: it has no inactivity value, its sort key is 0,
  and it stands after every row of infinite or positive inactivity.
\<close>

lemma placeholder_sorted_after_positive:
  "row_inactivity_seconds (placeholder m e) = None \<and>
   sort_key_of (placeholder m e) = Seconds 0 \<and>
   (\<forall>i j. i < length rows \<and> j < length rows \<and>
          sort_results rows ! i = placeholder m e \<and>
          Seconds 0 < sort_key_of (sort_results rows ! j) \<longrightarrow> j < i)"
proof (intro conjI allI impI)
  show "row_inactivity_seconds (placeholder m e) = None" by (simp add: placeholder_def)
  show k: "sort_key_of (placeholder m e) = Seconds 0" by (simp add: placeholder_def sort_key_of_def)
  fix i j
  assume a: "i < length rows \<and> j < length rows \<and>
          sort_results rows ! i = placeholder m e \<and>
          Seconds 0 < sort_key_of (sort_results rows ! j)"
  show "j < i"
  proof (rule ccontr)
    assume "\<not> j < i"
    then have "i \<le> j" by simp
    with a sort_results_desc [of i j rows]
    have le: "sort_key_of (sort_results rows ! j) \<le> sort_key_of (sort_results rows ! i)"
      by blast
    moreover from a have "Seconds 0 < sort_key_of (sort_results rows ! j)"
      and "sort_results rows ! i = placeholder m e" by simp_all
    ultimately show False using k by (simp add: leD)
  qed
qed

subsection \<open>The lines of the report\<close>

lemma digit_char_digit: "digit_char d \<in> set ''0123456789''"
  by (simp add: digit_char_def)

lemma str_nat_digits: "str_nat n \<noteq> [] \<and> set (str_nat n) \<subseteq> set ''0123456789''"
proof (induction n rule: str_nat.induct)
  case (1 n)
  show ?case
  proof (cases "n < 10")
    case True
    then show ?thesis using digit_char_digit [of n] by (subst str_nat.simps, subst str_nat.simps) simp
  next
    case False
    with 1 have "set (str_nat (n div 10)) \<subseteq> set ''0123456789''" by simp
    then show ?thesis using False digit_char_digit [of "n mod 10"]
      by (subst str_nat.simps, subst (2) str_nat.simps) simp
  qed
qed

lemma str_nat_length: "0 < k \<Longrightarrow> n < 10 ^ k \<Longrightarrow> length (str_nat n) \<le> k"
proof (induction k arbitrary: n)
  case 0
  then show ?case by simp
next
  case (Suc k)
  show ?case
  proof (cases "n < 10")
    case True
    then show ?thesis by (subst str_nat.simps) simp
  next
    case False
    then have k: "0 < k" using Suc.prems by (cases k) auto
    have "n div 10 < 10 ^ k" using Suc.prems by (simp add: less_mult_imp_div_less)
    with Suc.IH k have "length (str_nat (n div 10)) \<le> k" by simp
    then show ?thesis using False by (subst str_nat.simps) simp
  qed
qed

lemma round_half_even_upper:
  assumes "q < of_int N + 1 / 2"
  shows "round_half_even q \<le> N"
proof -
  have f: "\<lfloor>q\<rfloor> \<le> N"
  proof -
    have "q < of_int (N + 1)" using assms by simp
    then have "\<lfloor>q\<rfloor> < N + 1" by (simp only: floor_less_iff)
    then show ?thesis by simp
  qed
  show ?thesis
  proof (cases "\<lfloor>q\<rfloor> = N")
    case True
    then have "q - of_int \<lfloor>q\<rfloor> < 1 / 2" using assms by simp
    then show ?thesis using True by (simp add: round_half_even_def Let_def)
  next
    case False
    with f have "\<lfloor>q\<rfloor> + 1 \<le> N" by simp
    then show ?thesis using f by (simp add: round_half_even_def Let_def)
  qed
qed

lemma round_half_even_nonneg: "0 \<le> q \<Longrightarrow> 0 \<le> round_half_even q"
  by (simp add: round_half_even_def Let_def)

lemma fixed1_shape:
  "\<exists>sign ip d. fixed1 x = sign @ ip @ ''.'' @ [d] \<and> (sign = [] \<or> sign = ''-'') \<and>
                ip \<noteq> [] \<and> set ip \<subseteq> set ''0123456789'' \<and> d \<in> set ''0123456789''"
proof -
  define n where "n = round_half_even (\<bar>x\<bar> * 10)"
  define sign where "sign = (if x < 0 then ''-'' else [])"
  have e: "fixed1 x = sign @ str_nat (nat (n div 10)) @ ''.'' @ [digit_char (nat (n mod 10))]"
    by (simp add: fixed1_def Let_def n_def sign_def)
  have s: "sign = [] \<or> sign = ''-''" by (simp add: sign_def)
  note ne = str_nat_digits [of "nat (n div 10)", THEN conjunct1]
  note sub = str_nat_digits [of "nat (n div 10)", THEN conjunct2]
  note dc = digit_char_digit [of "nat (n mod 10)"]
  show ?thesis
    apply (rule exI [of _ sign])
    apply (rule exI [of _ "str_nat (nat (n div 10))"])
    apply (rule exI [of _ "digit_char (nat (n mod 10))"])
    apply (intro conjI)
        apply (rule e)
       apply (rule s)
      apply (rule ne)
     apply (rule sub)
    apply (rule dc)
    done
qed

lemma fixed1_length:
  assumes "0 \<le> x" "x < 199999 / 20"
  shows "length (fixed1 x) \<le> 6"
proof -
  define n where "n = round_half_even (\<bar>x\<bar> * 10)"
  have "\<bar>x\<bar> * 10 < of_int 99999 + 1 / 2" using assms by simp
  then have u: "n \<le> 99999" unfolding n_def by (rule round_half_even_upper)
  have l: "0 \<le> n" unfolding n_def by (rule round_half_even_nonneg) simp
  have "nat (n div 10) < 10 ^ 4" using u l by simp
  then have "length (str_nat (nat (n div 10))) \<le> 4" using str_nat_length [of 4 "nat (n div 10)"] by simp
  moreover have "fixed1 x = str_nat (nat (n div 10)) @ ''.'' @ [digit_char (nat (n mod 10))]"
    using assms(1) by (simp add: fixed1_def Let_def n_def)
  ultimately show ?thesis by simp
qed

lemma length_ljust: "length (ljust n s) = max n (length s)"
  by (simp add: ljust_def)

lemma length_rjust: "length (rjust n s) = max n (length s)"
  by (simp add: rjust_def)

lemma render_row_Inr:
  "render_row r = Inr line \<Longrightarrow>
   \<exists>name pt. row_current_name r = Some name \<and> row_playtime r = Some pt \<and>
     line = ljust 20 (row_guild_name r) @ '' | '' @ ljust 20 name @ '' | ''
            @ ljust 10 (row_rank r) @ '' | '' @ rjust 6 (fixed1 pt) @ ''h | ''
            @ row_delta_str r @ [CHR 0x0A]"
  by (auto simp: render_row_def split: option.splits)

lemma render_row_ok:
  "(\<exists>line. render_row r = Inr line) = (row_current_name r \<noteq> None \<and> row_playtime r \<noteq> None)"
  by (auto simp: render_row_def split: option.splits)

text \<open>
  Claim C5, amended. Every rendered line is the four columns and the delta string, joined
  by \<open>" | "\<close> and ended by a newline. The two name columns are the name followed by
  spaces up to a width of 20, and the rank column likewise up to 10: a longer value is
  never truncated, so a column has exactly its width only when the value fits. The playtime
  is written with exactly one decimal digit, preceded by spaces up to a width of 6 and
  followed by \<open>h\<close>; it has exactly 6 characters for a playtime from 0 up to, but not
  including, 9999.95. A row is rendered whenever its current name and playtime are not
  \<open>None\<close>.
\<close>

theorem render_row_columns:
  "(\<forall>line. render_row r = Inr line \<longrightarrow>
      (\<exists>name pt c1 c2 c3 c4 sign ip d.
         row_current_name r = Some name \<and> row_playtime r = Some pt \<and>
         line = c1 @ '' | '' @ c2 @ '' | '' @ c3 @ '' | '' @ c4 @ ''h | ''
                @ row_delta_str r @ [CHR 0x0A] \<and>
         c1 = row_guild_name r @ replicate (20 - length (row_guild_name r)) CHR '' '' \<and>
         length c1 = max 20 (length (row_guild_name r)) \<and>
         c2 = name @ replicate (20 - length name) CHR '' '' \<and>
         length c2 = max 20 (length name) \<and>
         c3 = row_rank r @ replicate (10 - length (row_rank r)) CHR '' '' \<and>
         length c3 = max 10 (length (row_rank r)) \<and>
         c4 = replicate (6 - length (sign @ ip @ ''.'' @ [d])) CHR '' '' @ sign @ ip @ ''.'' @ [d] \<and>
         fixed1 pt = sign @ ip @ ''.'' @ [d] \<and>
         (sign = [] \<or> sign = ''-'') \<and> ip \<noteq> [] \<and> set ip \<subseteq> set ''0123456789'' \<and>
         d \<in> set ''0123456789'' \<and>
         length c4 = max 6 (length (sign @ ip @ ''.'' @ [d])) \<and>
         (0 \<le> pt \<and> pt < 199999 / 20 \<longrightarrow> length c4 = 6))) \<and>
   (row_current_name r \<noteq> None \<and> row_playtime r \<noteq> None \<longrightarrow> (\<exists>line. render_row r = Inr line))"
proof (intro conjI allI impI)
  fix line
  assume "render_row r = Inr line"
  from render_row_Inr [OF this] obtain name pt where
    n: "row_current_name r = Some name" and p: "row_playtime r = Some pt"
    and rr: "line = ljust 20 (row_guild_name r) @ '' | '' @ ljust 20 name @ '' | ''
            @ ljust 10 (row_rank r) @ '' | '' @ rjust 6 (fixed1 pt) @ ''h | ''
            @ row_delta_str r @ [CHR 0x0A]"
    by blast
  from fixed1_shape [of pt] obtain sign ip d where
    f: "fixed1 pt = sign @ ip @ ''.'' @ [d]"
    and s: "sign = [] \<or> sign = ''-''" and i: "ip \<noteq> []" "set ip \<subseteq> set ''0123456789''"
    and d: "d \<in> set ''0123456789''"
    by blast
  let ?c4 = "rjust 6 (fixed1 pt)"
  have l: "0 \<le> pt \<and> pt < 199999 / 20 \<longrightarrow> length ?c4 = 6"
    using fixed1_length [of pt] by (auto simp: length_rjust)
  have c4: "?c4 = replicate (6 - length (sign @ ip @ ''.'' @ [d])) CHR '' '' @ sign @ ip @ ''.'' @ [d]"
    unfolding rjust_def f by simp
  have l4: "length ?c4 = max 6 (length (sign @ ip @ ''.'' @ [d]))"
    unfolding length_rjust f by simp
  show "\<exists>name pt c1 c2 c3 c4 sign ip d.
         row_current_name r = Some name \<and> row_playtime r = Some pt \<and>
         line = c1 @ '' | '' @ c2 @ '' | '' @ c3 @ '' | '' @ c4 @ ''h | ''
                @ row_delta_str r @ [CHR 0x0A] \<and>
         c1 = row_guild_name r @ replicate (20 - length (row_guild_name r)) CHR '' '' \<and>
         length c1 = max 20 (length (row_guild_name r)) \<and>
         c2 = name @ replicate (20 - length name) CHR '' '' \<and>
         length c2 = max 20 (length name) \<and>
         c3 = row_rank r @ replicate (10 - length (row_rank r)) CHR '' '' \<and>
         length c3 = max 10 (length (row_rank r)) \<and>
         c4 = replicate (6 - length (sign @ ip @ ''.'' @ [d])) CHR '' '' @ sign @ ip @ ''.'' @ [d] \<and>
         fixed1 pt = sign @ ip @ ''.'' @ [d] \<and>
         (sign = [] \<or> sign = ''-'') \<and> ip \<noteq> [] \<and> set ip \<subseteq> set ''0123456789'' \<and>
         d \<in> set ''0123456789'' \<and>
         length c4 = max 6 (length (sign @ ip @ ''.'' @ [d])) \<and>
         (0 \<le> pt \<and> pt < 199999 / 20 \<longrightarrow> length c4 = 6)"
    apply (rule exI [of _ name])
    apply (rule exI [of _ pt])
    apply (rule exI [of _ "ljust 20 (row_guild_name r)"])
    apply (rule exI [of _ "ljust 20 name"])
    apply (rule exI [of _ "ljust 10 (row_rank r)"])
    apply (rule exI [of _ ?c4])
    apply (rule exI [of _ sign])
    apply (rule exI [of _ ip])
    apply (rule exI [of _ d])
    apply (intro conjI)
    apply (rule n)
    apply (rule p)
    apply (rule rr)
    apply (simp add: ljust_def)
    apply (rule length_ljust)
    apply (simp add: ljust_def)
    apply (rule length_ljust)
    apply (simp add: ljust_def)
    apply (rule length_ljust)
    apply (rule c4)
    apply (rule f)
    apply (rule s)
    apply (rule i(1))
    apply (rule i(2))
    apply (rule d)
    apply (rule l4)
    apply (rule l)
    done
next
  assume "row_current_name r \<noteq> None \<and> row_playtime r \<noteq> None"
  then show "\<exists>line. render_row r = Inr line" by (simp add: render_row_ok)
qed

lemma fixed1_ex: "fixed1 (25 / 2) = ''12.5''" "fixed1 10000 = ''10000.0''" "fixed1 0 = ''0.0''"
  by (simp_all add: fixed1_def round_half_even_def Let_def str_nat.simps digit_char_def)

lemma replicate_numeral: "replicate (numeral k) x = x # replicate (pred_numeral k) x"
  by (simp add: numeral_eq_Suc)

text \<open>
  Claim C5, as stated, fails: a name of 25 characters is written in full, so that its
  column has 25 characters, and a playtime of 10000 hours takes 7 characters.
\<close>

theorem render_row_long_values:
  "render_row ex_long_row =
     Inr (''ABCDEFGHIJKLMNOPQRSTUVWXY | FooBar               | owner      | 10000.0h | 1d 1h 2m ago''
          @ [CHR 0x0A]) \<and>
   row_guild_name ex_long_row = ''ABCDEFGHIJKLMNOPQRSTUVWXY'' \<and>
   length (ljust 20 ''ABCDEFGHIJKLMNOPQRSTUVWXY'') = 25 \<and>
   row_playtime ex_long_row = Some 10000 \<and>
   length (rjust 6 (fixed1 10000)) = 7"
  by (simp add: render_row_def ex_long_row_def ex_active_row_def ljust_def rjust_def fixed1_ex replicate_numeral)

lemma ex_render_active:
  "render_row ex_active_row =
     Inr (''Foo                  | FooBar               | owner      |   12.5h | 1d 1h 2m ago''
          @ [CHR 0x0A])"
  by (simp add: render_row_def ex_active_row_def ljust_def rjust_def fixed1_ex replicate_numeral)

theorem render_row_columns_witness:
  "render_row ex_active_row =
     Inr (''Foo                  | FooBar               | owner      |   12.5h | 1d 1h 2m ago''
          @ [CHR 0x0A]) \<and>
   row_playtime ex_active_row = Some (25 / 2) \<and>
   length (rjust 6 (fixed1 (25 / 2))) = 6"
proof -
  have p: "row_playtime ex_active_row = Some (25 / 2)" "row_current_name ex_active_row \<noteq> None"
    by (simp_all add: ex_active_row_def)
  from render_row_columns [of ex_active_row] ex_render_active p
  show ?thesis
    by (auto simp: fixed1_ex rjust_def replicate_numeral)
qed

subsection \<open>The webhook and the exit status\<close>


















end
